theory Spec2Isabelle
  imports Complex_Main "HOL-Library.Sublist"
begin

section \<open>Siemens diffusion vector files: the model\<close>

text \<open>
  The development follows \<^verbatim>\<open>freediffusiontoolkit/siemens_tools.py\<close>: the classes
  \<^verbatim>\<open>BasicSiemensTool\<close> (current firmware) and \<^verbatim>\<open>LegacySiemensTool\<close>. The older
  module \<^verbatim>\<open>simens_tool.py\<close> holds the same \<^verbatim>\<open>vector_to_string\<close>; its
  \<^verbatim>\<open>construct_header\<close> reads the names \<^verbatim>\<open>datetime\<close>, \<^verbatim>\<open>b_values\<close> and
  \<^verbatim>\<open>n_dims\<close>, none of which is bound there, so it raises before it returns a header.
\<close>

subsection \<open>Python values and errors\<close>

datatype pyerror = IndexError | ValueError | OverflowError | AttributeError | OSError

text \<open>
  A Python float: \<open>Num x\<close> is a finite value other than negative zero, given by its
  exact value; every finite double is such a rational. A vector component is a float or
  an integer.
\<close>

datatype pyfloat = Num rat | NegZero | PosInf | NegInf | NaN

datatype component = PyFloat pyfloat | PyInt int

text \<open>The argument \<^verbatim>\<open>filename\<close> is a \<^verbatim>\<open>pathlib.Path\<close> or a plain string.\<close>

datatype fname = PyPath string | PyStr string

text \<open>
  The b-values are a list or a tuple of integers; \<^verbatim>\<open>construct_header\<close> reads them
  through \<^verbatim>\<open>len\<close> and \<^verbatim>\<open>str\<close> only.
\<close>

datatype bvalues = PyList "int list" | PyTuple "int list"

type_synonym options = "string \<rightharpoonup> string"

subsection \<open>Rendering integers: \<^verbatim>\<open>str(int)\<close>\<close>

definition digit_char :: "nat \<Rightarrow> char" where
  "digit_char d = ''0123456789'' ! d"

definition is_digit :: "char \<Rightarrow> bool" where
  "is_digit c = (c \<in> set ''0123456789'')"

fun show_nat :: "nat \<Rightarrow> string" where
  "show_nat n = (if n < 10 then [digit_char n] else show_nat (n div 10) @ [digit_char (n mod 10)])"

declare show_nat.simps [simp del]

definition show_int :: "int \<Rightarrow> string" where
  "show_int i = (if i < 0 then CHR ''-'' # show_nat (nat (- i)) else show_nat (nat i))"

subsection \<open>Rendering floats: the format specification \<^verbatim>\<open>' .{decimals}f'\<close>\<close>

text \<open>
  Python converts the exact value of the float to decimal, correctly rounded to the
  requested number of fractional digits, ties going to the even neighbour.
\<close>

definition round_half_even :: "rat \<Rightarrow> int" where
  "round_half_even x =
     (let f = \<lfloor>x\<rfloor>; d = x - of_int f
      in if d < 1 / 2 then f else if 1 / 2 < d then f + 1 else if even f then f else f + 1)"

definition zero_pad :: "nat \<Rightarrow> string \<Rightarrow> string" where
  "zero_pad d s = replicate (d - length s) CHR ''0'' @ s"

text \<open>\<open>fixed_digits d y\<close> renders the magnitude \<open>y\<close> with \<open>d\<close> fractional digits.\<close>

definition fixed_digits :: "nat \<Rightarrow> rat \<Rightarrow> string" where
  "fixed_digits d y =
     (let n = nat (round_half_even (y * 10 ^ d))
      in if d = 0 then show_nat n
         else show_nat (n div 10 ^ d) @ ''.'' @ zero_pad d (show_nat (n mod 10 ^ d)))"

text \<open>
  The space that opens the format specification asks for a space in the sign position
  of a value whose sign bit is clear; NaN and the infinities are rendered by name.
\<close>

fun float_text :: "nat \<Rightarrow> pyfloat \<Rightarrow> string" where
  "float_text d (Num v) = (if v < 0 then ''-'' else '' '') @ fixed_digits d \<bar>v\<bar>"
| "float_text d NegZero = ''-'' @ fixed_digits d 0"
| "float_text d PosInf = '' inf''"
| "float_text d NegInf = ''-inf''"
| "float_text d NaN = '' nan''"

text \<open>
  The presentation type \<^verbatim>\<open>f\<close> converts an integer with \<^verbatim>\<open>float\<close>: the result is the
  nearest double, a tie going to the even one, and \<^verbatim>\<open>OverflowError\<close> when that is
  beyond the largest double. A double has 53 significant bits.
\<close>

fun bit_length :: "nat \<Rightarrow> nat" where
  "bit_length n = (if n = 0 then 0 else Suc (bit_length (n div 2)))"

declare bit_length.simps [simp del]

definition float_of_int :: "int \<Rightarrow> pyerror + pyfloat" where
  "float_of_int i =
     (let n = nat \<bar>i\<bar>; k = bit_length n
      in if k \<le> 53 then Inr (Num (of_int i))
         else (let sh = k - 53; q = n div 2 ^ sh; r = n mod 2 ^ sh;
                   q' = (if 2 ^ sh < 2 * r \<or> (2 * r = 2 ^ sh \<and> odd q) then q + 1 else q);
                   m = q' * 2 ^ sh
               in if 2 ^ 1024 \<le> m then Inl OverflowError
                  else Inr (Num (if i < 0 then - of_nat m else of_nat m))))"

fun component_value :: "component \<Rightarrow> pyerror + pyfloat" where
  "component_value (PyFloat x) = Inr x"
| "component_value (PyInt i) = float_of_int i"

text \<open>
  The format specification is parsed first: a negative precision is none
  (\<^verbatim>\<open>ValueError: Format specifier missing precision\<close>), and one of \<open>2\<^sup>6\<^sup>3\<close> or more
  has too many digits (\<^verbatim>\<open>ValueError\<close>, on a 64-bit interpreter). Then an integer is
  converted, and then a precision of \<open>2\<^sup>3\<^sup>1\<close> or more is refused
  (\<^verbatim>\<open>ValueError: precision too big\<close>).
\<close>

definition format_f :: "int \<Rightarrow> component \<Rightarrow> pyerror + string" where
  "format_f decimals c =
     (if decimals < 0 \<or> 2 ^ 63 \<le> decimals then Inl ValueError
      else (case component_value c of
              Inl e \<Rightarrow> Inl e
            | Inr x \<Rightarrow> if 2 ^ 31 \<le> decimals then Inl ValueError
                       else Inr (float_text (nat decimals) x)))"

subsection \<open>\<^verbatim>\<open>BasicSiemensTool.vector_to_string\<close>\<close>

text \<open>\<^verbatim>\<open>vector[k]\<close> for a literal \<open>k \<ge> 0\<close>: out of range it raises \<^verbatim>\<open>IndexError\<close>.\<close>

definition getitem :: "'a list \<Rightarrow> nat \<Rightarrow> pyerror + 'a" where
  "getitem xs k = (if k < length xs then Inr (xs ! k) else Inl IndexError)"

text \<open>One replacement field \<^verbatim>\<open>{vector[k]: .{decimals}f}\<close>.\<close>

definition format_component :: "component list \<Rightarrow> nat \<Rightarrow> int \<Rightarrow> pyerror + string" where
  "format_component vector k decimals =
     (case getitem vector k of Inl e \<Rightarrow> Inl e | Inr v \<Rightarrow> format_f decimals v)"

text \<open>The fields of the f-string are evaluated from left to right.\<close>

definition vector_to_string :: "int \<Rightarrow> component list \<Rightarrow> int \<Rightarrow> pyerror + string" where
  "vector_to_string index vector decimals =
     (case format_component vector 0 decimals of Inl e \<Rightarrow> Inl e | Inr s0 \<Rightarrow>
     (case format_component vector 1 decimals of Inl e \<Rightarrow> Inl e | Inr s1 \<Rightarrow>
     (case format_component vector 2 decimals of Inl e \<Rightarrow> Inl e | Inr s2 \<Rightarrow>
        Inr (''Vector['' @ show_int index @ ''] = ('' @ s0 @ '','' @ s1 @ '','' @ s2 @ '')''))))"

subsection \<open>Python strings, paths and dictionaries\<close>

text \<open>\<^verbatim>\<open>dict.get(key, default)\<close>.\<close>

definition opt_get :: "options \<Rightarrow> string \<Rightarrow> string \<Rightarrow> string" where
  "opt_get opts k dflt = (case opts k of None \<Rightarrow> dflt | Some v \<Rightarrow> v)"

text \<open>\<^verbatim>\<open>str\<close> of a list or a tuple of integers, and \<^verbatim>\<open>len\<close>.\<close>

fun join_comma :: "string list \<Rightarrow> string" where
  "join_comma [] = []"
| "join_comma [x] = x"
| "join_comma (x # y # ys) = x @ '', '' @ join_comma (y # ys)"

fun str_bvalues :: "bvalues \<Rightarrow> string" where
  "str_bvalues (PyList xs) = ''['' @ join_comma (map show_int xs) @ '']''"
| "str_bvalues (PyTuple [x]) = ''('' @ show_int x @ '',)''"
| "str_bvalues (PyTuple xs) = ''('' @ join_comma (map show_int xs) @ '')''"

fun len_bvalues :: "bvalues \<Rightarrow> nat" where
  "len_bvalues (PyList xs) = length xs"
| "len_bvalues (PyTuple xs) = length xs"

text \<open>
  \<^verbatim>\<open>Path(s).name\<close> on a POSIX system: the last component of the path, where empty
  components and \<^verbatim>\<open>.\<close> components do not count; the empty string when none is left.
\<close>

fun split_on :: "char \<Rightarrow> string \<Rightarrow> string list" where
  "split_on c [] = [[]]"
| "split_on c (x # xs) =
     (if x = c then [] # split_on c xs
      else (case split_on c xs of [] \<Rightarrow> [[x]] | p # ps \<Rightarrow> (x # p) # ps))"

definition path_name :: "string \<Rightarrow> string" where
  "path_name s =
     (let parts = filter (\<lambda>p. p \<noteq> [] \<and> p \<noteq> ''.'') (split_on CHR ''/'' s)
      in if parts = [] then [] else last parts)"

fun fname_name :: "fname \<Rightarrow> string" where
  "fname_name (PyPath s) = path_name s"
| "fname_name (PyStr s) = path_name s"

text \<open>\<^verbatim>\<open>s.replace(old, new)\<close>: every occurrence, from left to right, without overlap.\<close>

function py_replace :: "string \<Rightarrow> string \<Rightarrow> string \<Rightarrow> string" where
  "py_replace old new s =
     (if old = [] then new @ concat (map (\<lambda>c. c # new) s)
      else if s = [] then []
      else if prefix old s then new @ py_replace old new (drop (length old) s)
      else hd s # py_replace old new (tl s))"
  by pat_completeness auto
termination
  by (relation "measure (\<lambda>(old, new, s). length s)") auto

declare py_replace.simps [simp del]

subsection \<open>\<^verbatim>\<open>BasicSiemensTool.construct_header\<close>\<close>

text \<open>
  The string literals of the source. The two path literals are raw strings, so each
  doubled backslash in them is two characters (\<open>dbs\<close>).
\<close>

definition separator :: string where
  "separator = ''# -----------------------------------------------------------------------------''"

definition dbs :: string where
  "dbs = [CHR 0x5C, CHR 0x5C]"

definition default_path_current :: string where
  "default_path_current =
     ''C:'' @ dbs @ ''Medcom'' @ dbs @ ''MriCustomer'' @ dbs @ ''seq'' @ dbs
       @ ''DiffusionVectorSets'' @ dbs"

definition default_path_legacy :: string where
  "default_path_legacy = ''C:'' @ dbs @ ''Medcom'' @ dbs @ ''MriCustomer'' @ dbs @ ''seq'' @ dbs"

definition LF :: string where
  "LF = [CHR 0x0A]"

definition CRLF :: string where
  "CRLF = [CHR 0x0D, CHR 0x0A]"

text \<open>
  \<open>current_time\<close> is the text that \<^verbatim>\<open>datetime.now().strftime(...)\<close> returns. The
  comment line is written when the option is set to a non-empty string.
\<close>

definition construct_header ::
    "options \<Rightarrow> string \<Rightarrow> fname option \<Rightarrow> int \<Rightarrow> bvalues \<Rightarrow> string list" where
  "construct_header opts current_time filename n_dims b_values =
     (let n_directions = int (len_bvalues b_values) * n_dims;
          name = (case filename of Some f \<Rightarrow> fname_name f | None \<Rightarrow> ''MyVectorSet.dvs'');
          default_path = opt_get opts ''default_path'' default_path_current;
          description = opt_get opts ''description''
                          ''Vector file for Siemens 'free' diffusion mode.''
      in [separator,
          ''# File: '' @ default_path @ name,
          ''# Date: '' @ current_time,
          ''# Description: '' @ description,
          ''b-values: '' @ str_bvalues b_values,
          ''number dimensions: '' @ show_int n_dims]
         @ (case opts ''Comment'' of
              None \<Rightarrow> []
            | Some comment \<Rightarrow> if comment = [] then [] else [''Comment: '' @ comment])
         @ [separator,
            ''[directions='' @ show_int n_directions @ '']'',
            ''CoordinateSystem = '' @ opt_get opts ''CoordinateSystem'' ''xyz'',
            ''Normalisation = '' @ opt_get opts ''Normalisation'' ''none''])"

subsection \<open>\<^verbatim>\<open>write\<close> (here \<open>write_file\<close>) and \<^verbatim>\<open>save\<close>\<close>

text \<open>
  The tool object after the constructor of the parent class has run: its option
  dictionary and the vectors that \<^verbatim>\<open>get_diffusion_vectors\<close> returns. The environment
  gives the formatted current time, tells which paths can be opened for writing, and
  gives the line separator of the platform (\<^verbatim>\<open>os.linesep\<close>).
\<close>

record tool =
  options :: options
  diffusion_vectors :: "component list list"

record env =
  now :: string
  writable :: "string \<Rightarrow> bool"
  linesep :: string

text \<open>
  The file is opened in text mode with the default \<^verbatim>\<open>newline\<close>: every line feed of a
  written string reaches the file as the line separator of the platform.
\<close>

definition translate_newlines :: "string \<Rightarrow> string \<Rightarrow> string" where
  "translate_newlines sep s = concat (map (\<lambda>c. if c = CHR 0x0A then sep else [c]) s)"

text \<open>
  The result of a write is the list of the pieces of text that the calls of
  \<^verbatim>\<open>file.write\<close> append to the file, in order, and the exception that ended it, if
  any. The file holds the concatenation of the pieces.
\<close>

fun write_rows ::
    "string \<Rightarrow> string \<Rightarrow> int \<Rightarrow> component list list \<Rightarrow> string list \<times> pyerror option" where
  "write_rows sep nl row_idx [] = ([], None)"
| "write_rows sep nl row_idx (row # rows) =
     (case vector_to_string row_idx row 6 of
        Inl e \<Rightarrow> ([], Some e)
      | Inr s \<Rightarrow> (case write_rows sep nl (row_idx + 1) rows of
                   (cs, r) \<Rightarrow> (translate_newlines sep (s @ nl) # cs, r)))"

definition write_file ::
    "env \<Rightarrow> tool \<Rightarrow> fname \<Rightarrow> string list \<Rightarrow> component list list
       \<Rightarrow> string list \<times> pyerror option" where
  "write_file e t filename header vectors =
     (case filename of
        PyStr s \<Rightarrow> ([], Some AttributeError)
      | PyPath p \<Rightarrow>
          if \<not> writable e p then ([], Some OSError)
          else (let nl = opt_get (options t) ''newline'' LF
                in case write_rows (linesep e) nl 0 vectors of
                     (cs, r) \<Rightarrow>
                       (map (\<lambda>line. translate_newlines (linesep e) (line @ nl)) header @ cs, r)))"


subsection \<open>\<^verbatim>\<open>LegacySiemensTool\<close>\<close>

definition legacy_init :: "tool \<Rightarrow> tool" where
  "legacy_init t =
     t\<lparr>options := (options t)(''newline'' \<mapsto> CRLF, ''default_path'' \<mapsto> default_path_legacy)\<rparr>"

definition strip_directions :: "string list \<Rightarrow> string list" where
  "strip_directions header =
     map (\<lambda>head. if prefix ''[directions='' head
                  then py_replace ''[directions='' [] head else head) header"

definition legacy_header :: "env \<Rightarrow> tool \<Rightarrow> fname \<Rightarrow> string list" where
  "legacy_header e t filename =
     strip_directions
       (construct_header (options t) (now e) (Some filename) 3 (PyTuple [0, 1000]))"

definition legacy_save :: "env \<Rightarrow> tool \<Rightarrow> fname \<Rightarrow> string list \<times> pyerror option" where
  "legacy_save e t filename =
     write_file e t filename (legacy_header e t filename) (diffusion_vectors t)"

subsection \<open>Reading a rendered number back\<close>

text \<open>
  These two functions are not part of the program: they read a decimal numeral, so that
  what a rendered line states can be compared with the number it was rendered from.
\<close>

definition digit_value :: "char \<Rightarrow> nat" where
  "digit_value c = of_char c - 48"

definition read_nat :: "string \<Rightarrow> nat" where
  "read_nat s = foldl (\<lambda>a c. 10 * a + digit_value c) 0 s"

subsection \<open>What the specification says of a rendered component\<close>






subsection \<open>What the rows of a vector set are to give\<close>

text \<open>
  These definitions are not part of the program. A component is in the float range when
  its conversion to a float does not fail; a row can be rendered when its first three
  components exist and are in the float range. \<open>vector_lines i rows\<close> lists what
  \<^verbatim>\<open>vector_to_string\<close> returns for each row, the first row having the index \<open>i\<close>.
\<close>

definition in_float_range :: "component \<Rightarrow> bool" where
  "in_float_range c = (case component_value c of Inl e \<Rightarrow> False | Inr x \<Rightarrow> True)"

definition row_ok :: "component list \<Rightarrow> bool" where
  "row_ok row = (3 \<le> length row \<and> list_all in_float_range (take 3 row))"

fun vector_lines :: "int \<Rightarrow> component list list \<Rightarrow> (pyerror + string) list" where
  "vector_lines i [] = []"
| "vector_lines i (row # rows) = vector_to_string i row 6 # vector_lines (i + 1) rows"

section \<open>Properties\<close>

subsection \<open>Auxiliary facts\<close>

lemma is_digit_digit_char: "d < 10 \<Longrightarrow> is_digit (digit_char d)"
  unfolding digit_char_def is_digit_def by (rule nth_mem) simp

lemma show_nat_digits: "list_all is_digit (show_nat n)"
proof (induction n rule: show_nat.induct)
  case (1 n)
  show ?case
  proof (cases "n < 10")
    case True
    then have "show_nat n = [digit_char n]" by (subst show_nat.simps) simp
    then show ?thesis using is_digit_digit_char [OF True] by simp
  next
    case False
    have "n mod 10 < 10" by simp
    then have d: "is_digit (digit_char (n mod 10))" by (rule is_digit_digit_char)
    have "show_nat n = show_nat (n div 10) @ [digit_char (n mod 10)]"
      using False by (subst show_nat.simps) simp
    with False 1 d show ?thesis by simp
  qed
qed


lemma show_int_chars: "list_all (\<lambda>c. is_digit c \<or> c = CHR ''-'') (show_int i)"
proof -
  have "list_all (\<lambda>c. is_digit c \<or> c = CHR ''-'') (show_nat k)" for k
    using show_nat_digits [of k] by (simp add: list_all_iff)
  then show ?thesis by (simp add: show_int_def)
qed

lemma show_int_no_bracket: "CHR ''['' \<notin> set (show_int i)"
proof
  assume "CHR ''['' \<in> set (show_int i)"
  with show_int_chars [of i] have "is_digit CHR ''['' \<or> CHR ''['' = CHR ''-''"
    unfolding list_all_iff by blast
  then show False by (simp add: is_digit_def)
qed

lemma header_marker:
  "filter (prefix ''[directions='') (construct_header opts ct fn n b) =
     [''[directions='' @ show_int (int (len_bvalues b) * n) @ '']'']"
  by (cases "opts ''Comment''") (simp_all add: construct_header_def separator_def)


lemma fc_eq: "k < length v \<Longrightarrow> k < length w \<Longrightarrow> v ! k = w ! k \<Longrightarrow> format_component v k d = format_component w k d"
  by (simp add: format_component_def getitem_def)

lemma show_nat_0: "show_nat 0 = ''0''" by (simp add: show_nat.simps digit_char_def)

lemma show_nat_1: "show_nat 1 = ''1''" by (simp add: show_nat.simps digit_char_def)

lemma show_nat_Suc0: "show_nat (Suc 0) = ''1''" by (simp add: show_nat.simps digit_char_def)

lemma show_nat_numeral:
  "show_nat (numeral k) =
     (if (numeral k :: nat) < 10 then [digit_char (numeral k)]
      else show_nat (numeral k div 10) @ [digit_char (numeral k mod 10)])"
  by (rule show_nat.simps)

lemmas show_nat_eval = show_nat_0 show_nat_1 show_nat_Suc0 show_nat_numeral digit_char_def

lemma digit_value_digit_char: "d < 10 \<Longrightarrow> digit_value (digit_char d) = d"
proof -
  assume "d < 10"
  then have "d = 0 \<or> d = 1 \<or> d = 2 \<or> d = 3 \<or> d = 4 \<or> d = 5 \<or> d = 6 \<or> d = 7
      \<or> d = 8 \<or> d = 9" by presburger
  then show ?thesis
    by (elim disjE) (simp_all add: digit_value_def digit_char_def)
qed

lemma read_nat_snoc: "read_nat (xs @ [c]) = 10 * read_nat xs + digit_value c"
  by (simp add: read_nat_def)

lemma read_nat_show_nat: "read_nat (show_nat n) = n"
proof (induction n rule: show_nat.induct)
  case (1 n)
  show ?case
  proof (cases "n < 10")
    case True
    then have "show_nat n = [] @ [digit_char n]" by (subst show_nat.simps) simp
    then have "read_nat (show_nat n) = digit_value (digit_char n)"
      by (simp only: read_nat_snoc) (simp add: read_nat_def)
    then show ?thesis using True by (simp add: digit_value_digit_char)
  next
    case False
    have "show_nat n = show_nat (n div 10) @ [digit_char (n mod 10)]"
      using False by (subst show_nat.simps) simp
    then have "read_nat (show_nat n) = 10 * read_nat (show_nat (n div 10)) + digit_value (digit_char (n mod 10))"
      by (simp only: read_nat_snoc)
    also have "\<dots> = 10 * (n div 10) + n mod 10"
      using 1 False by (simp add: digit_value_digit_char)
    finally show ?thesis by simp
  qed
qed

lemma header_file_line:
  "construct_header opts ct fn n b ! Suc 0 =
     ''# File: '' @ opt_get opts ''default_path'' default_path_current
        @ (case fn of Some f \<Rightarrow> fname_name f | None \<Rightarrow> ''MyVectorSet.dvs'')"
  by (simp add: construct_header_def)

lemma path_name_Nil: "path_name [] = []"
  by (simp add: path_name_def)

lemma py_replace_absent:
  assumes "old \<noteq> []" and "hd old \<notin> set s"
  shows "py_replace old new s = s"
  using assms(2)
proof (induction s)
  case Nil
  show ?case using assms(1) by (subst py_replace.simps) simp
next
  case (Cons c cs)
  from assms(1) obtain x xs where old: "old = x # xs" by (cases old) auto
  with Cons.prems have "x \<noteq> c" by auto
  then have np: "\<not> prefix old (c # cs)" by (simp add: old)
  have "py_replace old new (c # cs) = c # py_replace old new cs"
    using assms(1) np by (subst py_replace.simps) simp
  moreover have "py_replace old new cs = cs" using Cons by simp
  ultimately show ?case by simp
qed

lemma py_replace_prefix:
  assumes "old \<noteq> []"
  shows "py_replace old new (old @ rest) = new @ py_replace old new rest"
  using assms by (subst py_replace.simps) simp

lemma strip_marker:
  "py_replace ''[directions='' [] (''[directions='' @ show_int k @ '']'') = show_int k @ '']''"
proof -
  have "hd ''[directions='' \<notin> set (show_int k @ '']'')"
    using show_int_no_bracket [of k] by simp
  then have "py_replace ''[directions='' [] (show_int k @ '']'') = show_int k @ '']''"
    by (intro py_replace_absent) simp_all
  then show ?thesis
    using py_replace_prefix [of "''[directions=''" "[]" "show_int k @ '']''"] by simp
qed

lemma strip_directions_header:
  "strip_directions (construct_header opts ct fn n b) =
     (construct_header opts ct fn n b)
       [length (construct_header opts ct fn n b) - 3 :=
          show_int (int (len_bvalues b) * n) @ '']'']"
proof -
  have m: "py_replace ''[directions='' [] (CHR ''['' # CHR ''d'' # CHR ''i'' # CHR ''r'' # CHR ''e''
      # CHR ''c'' # CHR ''t'' # CHR ''i'' # CHR ''o'' # CHR ''n'' # CHR ''s'' # CHR ''=''
      # show_int k @ '']'') = show_int k @ '']''" for k
    using strip_marker [of k] by simp
  show ?thesis
    by (cases "opts ''Comment''")
       (simp_all add: construct_header_def strip_directions_def separator_def m)
qed

lemma header_marker_position:
  "construct_header opts ct fn n b ! (length (construct_header opts ct fn n b) - 3) =
     ''[directions='' @ show_int (int (len_bvalues b) * n) @ '']''"
  by (cases "opts ''Comment''") (simp_all add: construct_header_def)

lemma header_length: "3 \<le> length (construct_header opts ct fn n b)"
  by (cases "opts ''Comment''") (simp_all add: construct_header_def)

lemma no_marker_prefix_inside: "\<not> sublist ''[directions='' (show_int k @ '']'')"
proof
  assume "sublist ''[directions='' (show_int k @ '']'')"
  then have "set ''[directions='' \<subseteq> set (show_int k @ '']'')" by (rule set_mono_sublist)
  then have "CHR ''['' \<in> set (show_int k @ '']'')" by simp
  then show False using show_int_no_bracket [of k] by simp
qed

lemma number_dimensions_in_header:
  "''number dimensions: '' @ show_int n \<in> set (construct_header opts ct fn n b)"
  by (simp add: construct_header_def)

lemma strip_directions_keeps:
  assumes "l \<in> set h" and "\<not> prefix ''[directions='' l"
  shows "l \<in> set (strip_directions h)"
proof -
  have "(if prefix ''[directions='' l then py_replace ''[directions='' [] l else l) = l"
    using assms(2) by simp
  then show ?thesis using assms(1) unfolding strip_directions_def set_map by force
qed

lemma number_dimensions_in_legacy_header:
  "''number dimensions: 3'' \<in> set (legacy_header e t f)"
proof -
  have "''number dimensions: '' @ show_int 3
          \<in> set (construct_header (options t) (now e) (Some f) 3 (PyTuple [0, 1000]))"
    by (rule number_dimensions_in_header)
  then have "''number dimensions: 3''
          \<in> set (construct_header (options t) (now e) (Some f) 3 (PyTuple [0, 1000]))"
    by (simp add: show_int_def show_nat_eval)
  moreover have "\<not> prefix ''[directions='' ''number dimensions: 3''" by simp
  ultimately show ?thesis unfolding legacy_header_def by (rule strip_directions_keeps)
qed

lemma legacy_newline: "opt_get (options (legacy_init t)) ''newline'' LF = CRLF"
  by (simp add: legacy_init_def opt_get_def)





























lemma format_f_ok:
  assumes "0 \<le> d" and "d < 2 ^ 31" and "component_value c = Inr x"
  shows "format_f d c = Inr (float_text (nat d) x)"
proof -
  have "(2::int) ^ 31 \<le> 2 ^ 63" by simp
  with assms(2) have "d < 2 ^ 63" by linarith
  then show ?thesis using assms by (simp add: format_f_def)
qed

lemma format_f_bad_precision:
  assumes "d < 0 \<or> 2 ^ 31 \<le> d"
  shows "\<exists>e. format_f d c = Inl e"
  using assms by (cases "component_value c") (auto simp: format_f_def)

lemma fc_ok:
  assumes "k < length v" and "0 \<le> d" and "d < 2 ^ 31" and "in_float_range (v ! k)"
  shows "\<exists>s. format_component v k d = Inr s"
proof -
  obtain x where "component_value (v ! k) = Inr x"
    using assms(4) by (cases "component_value (v ! k)") (simp_all add: in_float_range_def)
  then have "format_f d (v ! k) = Inr (float_text (nat d) x)"
    using assms(2,3) by (intro format_f_ok)
  then show ?thesis using assms(1) by (simp add: format_component_def getitem_def)
qed


lemma vector_to_string_ok:
  assumes "row_ok v" and "0 \<le> d" and "d < 2 ^ 31"
  shows "\<exists>s. vector_to_string i v d = Inr s"
proof -
  from assms(1) have l: "3 \<le> length v" and r: "list_all in_float_range (take 3 v)"
    by (simp_all add: row_ok_def)
  have lv: "0 < length v" "1 < length v" "2 < length v" using l by linarith+
  have fr: "in_float_range (v ! k)" if "k < 3" for k
  proof -
    have "k < length (take 3 v)" using that l by simp
    then have "in_float_range (take 3 v ! k)" using r by (simp add: list_all_length)
    then show ?thesis using that by simp
  qed
  obtain s0 where s0: "format_component v 0 d = Inr s0"
    using fc_ok [OF lv(1) assms(2,3)] fr [of 0] by auto
  obtain s1 where s1: "format_component v 1 d = Inr s1"
    using fc_ok [OF lv(2) assms(2,3)] fr [of 1] by auto
  obtain s2 where s2: "format_component v 2 d = Inr s2"
    using fc_ok [OF lv(3) assms(2,3)] fr [of 2] by auto
  show ?thesis using s0 s1 s2 by (simp add: vector_to_string_def)
qed


















lemma translate_newlines_Nil: "translate_newlines sep [] = []"
  by (simp add: translate_newlines_def)

lemma translate_newlines_Cons:
  "translate_newlines sep (c # s) = (if c = CHR 0x0A then sep else [c]) @ translate_newlines sep s"
  by (simp add: translate_newlines_def)

lemma translate_newlines_LF: "translate_newlines LF s = s"
  by (induction s) (simp_all add: translate_newlines_Nil translate_newlines_Cons LF_def)

lemma write_rows_lines:
  "\<exists>lines. fst (write_rows sep nl i rows) = map (\<lambda>l. translate_newlines sep (l @ nl)) lines
      \<and> map Inr lines = take (length lines) (vector_lines i rows)
      \<and> (list_all row_ok rows \<longrightarrow>
            length lines = length rows \<and> snd (write_rows sep nl i rows) = None)"
proof (induction rows arbitrary: i)
  case Nil
  show ?case by simp
next
  case (Cons row rows)
  show ?case
  proof (cases "vector_to_string i row 6")
    case (Inl err)
    have "\<not> row_ok row"
    proof
      assume "row_ok row"
      then obtain s where "vector_to_string i row 6 = Inr s"
        using vector_to_string_ok [of row 6 i] by auto
      with Inl show False by simp
    qed
    then have "fst (write_rows sep nl i (row # rows)) = map (\<lambda>l. translate_newlines sep (l @ nl)) []
      \<and> map Inr [] = take (length ([] :: string list)) (vector_lines i (row # rows))
      \<and> (list_all row_ok (row # rows) \<longrightarrow>
            length ([] :: string list) = length (row # rows)
            \<and> snd (write_rows sep nl i (row # rows)) = None)"
      using Inl by simp
    then show ?thesis by (rule exI)
  next
    case (Inr s)
    obtain cs r where w: "write_rows sep nl (i + 1) rows = (cs, r)"
      by (cases "write_rows sep nl (i + 1) rows")
    from Cons [of "i + 1"] obtain lines where
      l1: "fst (write_rows sep nl (i + 1) rows) = map (\<lambda>l. translate_newlines sep (l @ nl)) lines"
      and l2: "map Inr lines = take (length lines) (vector_lines (i + 1) rows)"
      and l3: "list_all row_ok rows \<longrightarrow>
            length lines = length rows \<and> snd (write_rows sep nl (i + 1) rows) = None"
      by blast
    have "fst (write_rows sep nl i (row # rows))
            = map (\<lambda>l. translate_newlines sep (l @ nl)) (s # lines)
      \<and> map Inr (s # lines) = take (length (s # lines)) (vector_lines i (row # rows))
      \<and> (list_all row_ok (row # rows) \<longrightarrow>
            length (s # lines) = length (row # rows)
            \<and> snd (write_rows sep nl i (row # rows)) = None)"
      using Inr w l1 l2 l3 by simp
    then show ?thesis by (rule exI)
  qed
qed

lemma write_file_lines:
  assumes "writable e p"
  shows "\<exists>lines. fst (write_file e t (PyPath p) h vs)
          = map (\<lambda>l. translate_newlines (linesep e) (l @ opt_get (options t) ''newline'' LF))
              (h @ lines)
      \<and> map Inr lines = take (length lines) (vector_lines 0 vs)
      \<and> (list_all row_ok vs \<longrightarrow>
            length lines = length vs \<and> snd (write_file e t (PyPath p) h vs) = None)"
proof -
  let ?nl = "opt_get (options t) ''newline'' LF"
  obtain cs r where w: "write_rows (linesep e) ?nl 0 vs = (cs, r)"
    by (cases "write_rows (linesep e) ?nl 0 vs")
  from write_rows_lines [of "linesep e" ?nl 0 vs] obtain lines where
    l1: "fst (write_rows (linesep e) ?nl 0 vs)
           = map (\<lambda>l. translate_newlines (linesep e) (l @ ?nl)) lines"
    and l2: "map Inr lines = take (length lines) (vector_lines 0 vs)"
    and l3: "list_all row_ok vs \<longrightarrow>
            length lines = length vs \<and> snd (write_rows (linesep e) ?nl 0 vs) = None"
    by blast
  have "fst (write_file e t (PyPath p) h vs)
          = map (\<lambda>l. translate_newlines (linesep e) (l @ ?nl)) (h @ lines)
      \<and> map Inr lines = take (length lines) (vector_lines 0 vs)
      \<and> (list_all row_ok vs \<longrightarrow>
            length lines = length vs \<and> snd (write_file e t (PyPath p) h vs) = None)"
    using assms w l1 l2 l3 by (simp add: write_file_def Let_def)
  then show ?thesis by (rule exI)
qed

lemma written_header_line:
  assumes "writable e p" and "k < length h"
  shows "fst (write_file e t (PyPath p) h vs) ! k
           = translate_newlines (linesep e) (h ! k @ opt_get (options t) ''newline'' LF)"
proof -
  from write_file_lines [OF assms(1), of t h vs] obtain lines where
    "fst (write_file e t (PyPath p) h vs)
          = map (\<lambda>l. translate_newlines (linesep e) (l @ opt_get (options t) ''newline'' LF))
              (h @ lines)"
    by blast
  then show ?thesis using assms(2) by (simp add: nth_append)
qed

lemma legacy_header_length: "length (legacy_header e t f) =
    length (construct_header (options t) (now e) (Some f) 3 (PyTuple [0, 1000]))"
  by (simp add: legacy_header_def strip_directions_def)

lemma legacy_header_marker:
  "legacy_header e t f ! (length (legacy_header e t f) - 3) = ''6]''"
proof -
  let ?d = "construct_header (options t) (now e) (Some f) 3 (PyTuple [0, 1000])"
  have "legacy_header e t f ! (length ?d - 3)
          = show_int (int (len_bvalues (PyTuple [0, 1000])) * 3) @ '']''"
    using header_length [of "options t" "now e" "Some f" 3 "PyTuple [0, 1000]"]
    by (simp add: legacy_header_def strip_directions_header)
  then show ?thesis by (simp add: legacy_header_length show_int_def show_nat_eval)
qed

lemma legacy_written_marker:
  assumes "writable e p"
  shows "fst (legacy_save e t (PyPath p)) ! (length (legacy_header e t (PyPath p)) - 3)
           = translate_newlines (linesep e) (''6]'' @ opt_get (options t) ''newline'' LF)"
proof -
  let ?h = "legacy_header e t (PyPath p)"
  have "3 \<le> length ?h"
    using header_length [of "options t" "now e" "Some (PyPath p)" 3 "PyTuple [0, 1000]"]
    by (simp add: legacy_header_length)
  then have k: "length ?h - 3 < length ?h" by simp
  show ?thesis
    unfolding legacy_save_def written_header_line [OF assms k]
    by (simp add: legacy_header_marker)
qed

lemma no_marker_in_written:
  "\<not> sublist ''[directions='' (''6]'' @ CRLF)"
  "\<not> sublist ''[directions='' (''6]'' @ [CHR 0x0D, CHR 0x0D, CHR 0x0A])"
proof -
  show "\<not> sublist ''[directions='' (''6]'' @ CRLF)"
  proof
    assume "sublist ''[directions='' (''6]'' @ CRLF)"
    then have "set ''[directions='' \<subseteq> set (''6]'' @ CRLF)" by (rule set_mono_sublist)
    then have "CHR ''['' \<in> set (''6]'' @ CRLF)" by simp
    then show False by (simp add: CRLF_def)
  qed
  show "\<not> sublist ''[directions='' (''6]'' @ [CHR 0x0D, CHR 0x0D, CHR 0x0A])"
  proof
    assume "sublist ''[directions='' (''6]'' @ [CHR 0x0D, CHR 0x0D, CHR 0x0A])"
    then have "set ''[directions='' \<subseteq> set (''6]'' @ [CHR 0x0D, CHR 0x0D, CHR 0x0A])"
      by (rule set_mono_sublist)
    then have "CHR ''['' \<in> set (''6]'' @ [CHR 0x0D, CHR 0x0D, CHR 0x0A])" by simp
    then show False by simp
  qed
qed

lemma translate_marker_CRLF:
  "translate_newlines CRLF (''6]'' @ CRLF) = ''6]'' @ [CHR 0x0D, CHR 0x0D, CHR 0x0A]"
  by (simp add: translate_newlines_def CRLF_def)

subsection \<open>The vector line\<close>

text \<open>
  C10. \<^verbatim>\<open>vector_to_string\<close> reads components 0, 1 and 2 only: for every index and
  every \<^verbatim>\<open>decimals\<close>, two vectors of length at least 3 that agree on their first
  three components give the same result. Further components are ignored, not rejected.
\<close>

theorem vector_to_string_first_three:
  assumes "3 \<le> length v" "3 \<le> length w" "v ! 0 = w ! 0" "v ! 1 = w ! 1" "v ! 2 = w ! 2"
  shows "vector_to_string i v d = vector_to_string i w d"
proof -
  have lv: "0 < length v" "1 < length v" "2 < length v" using assms(1) by linarith+
  have lw: "0 < length w" "1 < length w" "2 < length w" using assms(2) by linarith+
  have "format_component v 0 d = format_component w 0 d"
    using lv(1) lw(1) assms(3) by (rule fc_eq)
  moreover have "format_component v 1 d = format_component w 1 d"
    using lv(2) lw(2) assms(4) by (rule fc_eq)
  moreover have "format_component v 2 d = format_component w 2 d"
    using lv(3) lw(3) assms(5) by (rule fc_eq)
  ultimately show ?thesis by (simp only: vector_to_string_def)
qed

theorem vector_to_string_first_three_witness:
  "3 \<le> length [PyFloat (Num 0), PyInt 1, PyFloat NegZero]
   \<and> 3 \<le> length [PyFloat (Num 0), PyInt 1, PyFloat NegZero, PyFloat NaN, PyInt 7]
   \<and> vector_to_string 4 [PyFloat (Num 0), PyInt 1, PyFloat NegZero] 6
       = vector_to_string 4 [PyFloat (Num 0), PyInt 1, PyFloat NegZero, PyFloat NaN, PyInt 7] 6"
  using vector_to_string_first_three [of "[PyFloat (Num 0), PyInt 1, PyFloat NegZero]"
      "[PyFloat (Num 0), PyInt 1, PyFloat NegZero, PyFloat NaN, PyInt 7]" 4 6]
  by simp

subsection \<open>The header\<close>

text \<open>
  C1. For every non-empty b-value sequence and every positive \<^verbatim>\<open>n_dims\<close>, the header
  that \<^verbatim>\<open>construct_header\<close> returns has exactly one line that starts with
  \<^verbatim>\<open>[directions=\<close>; it is \<^verbatim>\<open>[directions=N]\<close>, where \<open>N\<close> is a decimal numeral
  whose value is the number of b-values times \<^verbatim>\<open>n_dims\<close>.
\<close>

theorem construct_header_direction_count:
  assumes "0 < len_bvalues b_values" and "0 < n_dims"
  shows "\<exists>ds. filter (prefix ''[directions='') (construct_header opts ct filename n_dims b_values)
                 = [''[directions='' @ ds @ '']'']
              \<and> ds = show_int (int (len_bvalues b_values) * n_dims)
              \<and> list_all is_digit ds
              \<and> int (read_nat ds) = int (len_bvalues b_values) * n_dims"
proof -
  let ?N = "int (len_bvalues b_values) * n_dims"
  have pos: "0 < ?N" using assms by simp
  then have eq: "show_int ?N = show_nat (nat ?N)" by (simp add: show_int_def)
  have "list_all is_digit (show_int ?N)" unfolding eq by (rule show_nat_digits)
  moreover have "int (read_nat (show_int ?N)) = ?N"
    unfolding eq read_nat_show_nat using pos by simp
  ultimately show ?thesis using header_marker [of opts ct filename n_dims b_values] by blast
qed

theorem construct_header_direction_count_witness:
  "0 < len_bvalues (PyList [0, 1000]) \<and> 0 < (3::int) \<and>
   filter (prefix ''[directions='') (construct_header Map.empty ''Wed Jan 15 14:32:07 2025'' None 3 (PyList [0, 1000]))
     = [''[directions=6]''] \<and> read_nat ''6'' = 6"
  using construct_header_direction_count [of "PyList [0, 1000]" 3 Map.empty "''Wed Jan 15 14:32:07 2025''" None]
  by (simp add: show_int_def show_nat_eval read_nat_def digit_value_def)

text \<open>
  C7 (as the claim states it, refuted). \<^verbatim>\<open>construct_header\<close> does not validate its
  arguments: with an empty b-value list it returns a header whose direction marker is
  \<^verbatim>\<open>[directions=0]\<close>.
\<close>

theorem construct_header_empty_bvalues_counterexample:
  "filter (prefix ''[directions='')
     (construct_header Map.empty ''Wed Jan 15 14:32:07 2025'' None 3 (PyList []))
   = [''[directions=0]'']"
  by (simp add: header_marker show_int_def show_nat_0)

text \<open>
  C7 (amended). For an empty b-value sequence or \<^verbatim>\<open>n_dims\<close> \<open>\<le> 0\<close>,
  \<^verbatim>\<open>construct_header\<close> raises nothing: it returns a header whose only direction marker
  states the product of the number of b-values and \<^verbatim>\<open>n_dims\<close>, a number that is zero
  or negative.
\<close>

theorem construct_header_no_validation:
  assumes "len_bvalues b_values = 0 \<or> n_dims \<le> 0"
  shows "filter (prefix ''[directions='') (construct_header opts ct filename n_dims b_values)
           = [''[directions='' @ show_int (int (len_bvalues b_values) * n_dims) @ '']'']
         \<and> int (len_bvalues b_values) * n_dims \<le> 0"
proof -
  have "int (len_bvalues b_values) * n_dims \<le> 0"
    using assms by (auto simp: mult_le_0_iff)
  then show ?thesis using header_marker [of opts ct filename n_dims b_values] by simp
qed

theorem construct_header_no_validation_witness:
  "(len_bvalues (PyTuple [0, 1000]) = 0 \<or> (- 3 :: int) \<le> 0) \<and>
   filter (prefix ''[directions='')
     (construct_header Map.empty ''Wed Jan 15 14:32:07 2025'' None (- 3) (PyTuple [0, 1000]))
   = [''[directions=-6]'']"
  using construct_header_no_validation [of "PyTuple [0, 1000]" "- 3" Map.empty
      "''Wed Jan 15 14:32:07 2025''" None]
  by (simp add: show_int_def show_nat_eval)

text \<open>
  C6 (as the claim states it, refuted). With the empty string as output name, the file
  line ends with the directory: the default name is not used.
\<close>

theorem construct_header_empty_name_counterexample:
  "construct_header Map.empty ''Wed Jan 15 14:32:07 2025'' (Some (PyStr [])) 3 (PyTuple [0, 1000]) ! 1
     = ''# File: '' @ default_path_current
   \<and> ''# File: '' @ default_path_current
       \<noteq> ''# File: '' @ default_path_current @ ''MyVectorSet.dvs''"
  by (simp add: header_file_line path_name_Nil opt_get_def)

text \<open>
  C6 (amended). When the output name is absent (\<^verbatim>\<open>None\<close>), the file line uses the
  default name \<^verbatim>\<open>MyVectorSet.dvs\<close>. An empty string or an empty path is not absent:
  its last component is the empty string, and the file line ends with the directory.
\<close>

theorem construct_header_default_name:
  "construct_header opts ct None n_dims b_values ! 1
     = ''# File: '' @ opt_get opts ''default_path'' default_path_current @ ''MyVectorSet.dvs''
   \<and> construct_header opts ct (Some (PyStr [])) n_dims b_values ! 1
     = ''# File: '' @ opt_get opts ''default_path'' default_path_current
   \<and> construct_header opts ct (Some (PyPath [])) n_dims b_values ! 1
     = ''# File: '' @ opt_get opts ''default_path'' default_path_current"
  by (simp add: header_file_line path_name_Nil)

subsection \<open>The legacy header\<close>

text \<open>
  C9 (as the claim states it, refuted). The header that the legacy \<^verbatim>\<open>save\<close> writes
  holds the line \<^verbatim>\<open>number dimensions: 3\<close>.
\<close>

theorem legacy_header_number_dimensions_counterexample:
  "''number dimensions: 3''
     \<in> set (legacy_header \<lparr>now = ''Wed Jan 15 14:32:07 2025'', writable = (\<lambda>p. True), linesep = LF\<rparr>
               (legacy_init \<lparr>options = Map.empty, diffusion_vectors = []\<rparr>)
               (PyPath ''DiffusionVectors.txt''))"
  by (rule number_dimensions_in_legacy_header)

text \<open>
  C9 (amended). The line \<^verbatim>\<open>number dimensions: <n_dims>\<close> is in every header that
  \<^verbatim>\<open>construct_header\<close> returns, and the legacy \<^verbatim>\<open>save\<close>, which rewrites the
  direction marker only, keeps it: the legacy header holds \<^verbatim>\<open>number dimensions: 3\<close>.
\<close>

theorem number_dimensions_line_both_variants:
  "''number dimensions: '' @ show_int n_dims
     \<in> set (construct_header opts ct filename n_dims b_values)
   \<and> ''number dimensions: 3'' \<in> set (legacy_header e (legacy_init t) f)"
  using number_dimensions_in_header number_dimensions_in_legacy_header by simp

subsection \<open>The directory in the file line\<close>

text \<open>
  C5. With no options and the output name \<^verbatim>\<open>MyVectorSet.dvs\<close>, the file line of the
  current variant has two backslash characters between the path components, as the raw
  string literal of the source has; it is not the line with single backslashes. The
  directory that the legacy constructor stores has doubled backslashes as well.
\<close>

theorem default_path_double_backslash:
  "construct_header Map.empty ''Wed Jan 15 14:32:07 2025'' (Some (PyPath ''MyVectorSet.dvs'')) 3
       (PyTuple [0, 1000]) ! 1
     = ''# File: C:'' @ [CHR 0x5C, CHR 0x5C] @ ''Medcom'' @ [CHR 0x5C, CHR 0x5C]
         @ ''MriCustomer'' @ [CHR 0x5C, CHR 0x5C] @ ''seq'' @ [CHR 0x5C, CHR 0x5C]
         @ ''DiffusionVectorSets'' @ [CHR 0x5C, CHR 0x5C] @ ''MyVectorSet.dvs''
   \<and> construct_header Map.empty ''Wed Jan 15 14:32:07 2025'' (Some (PyPath ''MyVectorSet.dvs'')) 3
       (PyTuple [0, 1000]) ! 1
     \<noteq> ''# File: C:'' @ [CHR 0x5C] @ ''Medcom'' @ [CHR 0x5C]
         @ ''MriCustomer'' @ [CHR 0x5C] @ ''seq'' @ [CHR 0x5C]
         @ ''DiffusionVectorSets'' @ [CHR 0x5C] @ ''MyVectorSet.dvs''
   \<and> options (legacy_init t) ''default_path''
     = Some (''C:'' @ [CHR 0x5C, CHR 0x5C] @ ''Medcom'' @ [CHR 0x5C, CHR 0x5C]
         @ ''MriCustomer'' @ [CHR 0x5C, CHR 0x5C] @ ''seq'' @ [CHR 0x5C, CHR 0x5C])"
  by (simp add: header_file_line path_name_def opt_get_def default_path_current_def
        default_path_legacy_def dbs_def legacy_init_def)

subsection \<open>Vectors that are too short\<close>




subsection \<open>The direction marker of a saved legacy file\<close>

text \<open>
  C3. The direction marker is the third line from the end of the header. The legacy
  \<^verbatim>\<open>save\<close> replaces \<^verbatim>\<open>[directions=N]\<close> there by \<^verbatim>\<open>N]\<close>: the prefix is removed,
  the closing bracket stays, and the resulting line does not contain \<^verbatim>\<open>[directions=\<close>.
  Since \<^verbatim>\<open>save\<close> builds the header with the default b-values and dimensions, the
  line is \<^verbatim>\<open>6]\<close>, and what the legacy \<^verbatim>\<open>save\<close> writes to the file at that position is
  \<^verbatim>\<open>6]\<close> followed by the terminator: carriage return and line feed where the line
  separator of the platform is a line feed, two carriage returns and a line feed where
  it is carriage return and line feed. Neither contains \<^verbatim>\<open>[directions=\<close>.
\<close>

theorem legacy_direction_marker:
  "construct_header opts ct filename n_dims b_values
     ! (length (construct_header opts ct filename n_dims b_values) - 3)
     = ''[directions='' @ show_int (int (len_bvalues b_values) * n_dims) @ '']''
   \<and> strip_directions (construct_header opts ct filename n_dims b_values)
     ! (length (construct_header opts ct filename n_dims b_values) - 3)
     = show_int (int (len_bvalues b_values) * n_dims) @ '']''
   \<and> \<not> sublist ''[directions='' (show_int (int (len_bvalues b_values) * n_dims) @ '']'')
   \<and> legacy_header e t f ! (length (legacy_header e t f) - 3) = ''6]''
   \<and> \<not> sublist ''[directions=''
         (legacy_header e t f ! (length (legacy_header e t f) - 3))
   \<and> (writable e p \<longrightarrow>
         fst (legacy_save e (legacy_init t) (PyPath p))
           ! (length (legacy_header e (legacy_init t) (PyPath p)) - 3)
         = translate_newlines (linesep e) (''6]'' @ CRLF))
   \<and> (writable e p \<and> linesep e = LF \<longrightarrow>
         fst (legacy_save e (legacy_init t) (PyPath p))
           ! (length (legacy_header e (legacy_init t) (PyPath p)) - 3)
         = ''6]'' @ CRLF)
   \<and> (writable e p \<and> linesep e = CRLF \<longrightarrow>
         fst (legacy_save e (legacy_init t) (PyPath p))
           ! (length (legacy_header e (legacy_init t) (PyPath p)) - 3)
         = ''6]'' @ [CHR 0x0D, CHR 0x0D, CHR 0x0A])
   \<and> \<not> sublist ''[directions='' (''6]'' @ CRLF)
   \<and> \<not> sublist ''[directions='' (''6]'' @ [CHR 0x0D, CHR 0x0D, CHR 0x0A])"
proof -
  let ?h = "construct_header opts ct filename n_dims b_values"
  have a: "strip_directions ?h ! (length ?h - 3) = show_int (int (len_bvalues b_values) * n_dims) @ '']''"
    using header_length [of opts ct filename n_dims b_values]
    by (simp add: strip_directions_header)
  have b: "legacy_header e t f ! (length (legacy_header e t f) - 3) = ''6]''"
    by (rule legacy_header_marker)
  have c: "\<not> sublist ''[directions='' ''6]''"
    using no_marker_prefix_inside [of 6] by (simp add: show_int_def show_nat_eval)
  have w: "fst (legacy_save e (legacy_init t) (PyPath p))
           ! (length (legacy_header e (legacy_init t) (PyPath p)) - 3)
         = translate_newlines (linesep e) (''6]'' @ CRLF)" if "writable e p"
    using legacy_written_marker [OF that, of "legacy_init t"] by (simp add: legacy_newline)
  have w1: "writable e p \<and> linesep e = LF \<longrightarrow>
         fst (legacy_save e (legacy_init t) (PyPath p))
           ! (length (legacy_header e (legacy_init t) (PyPath p)) - 3)
         = ''6]'' @ CRLF"
    using w by (simp add: translate_newlines_LF)
  have w2: "writable e p \<and> linesep e = CRLF \<longrightarrow>
         fst (legacy_save e (legacy_init t) (PyPath p))
           ! (length (legacy_header e (legacy_init t) (PyPath p)) - 3)
         = ''6]'' @ [CHR 0x0D, CHR 0x0D, CHR 0x0A]"
  proof
    assume h: "writable e p \<and> linesep e = CRLF"
    then have le: "linesep e = CRLF" by simp
    from h have "fst (legacy_save e (legacy_init t) (PyPath p))
           ! (length (legacy_header e (legacy_init t) (PyPath p)) - 3)
         = translate_newlines (linesep e) (''6]'' @ CRLF)" using w by simp
    then show "fst (legacy_save e (legacy_init t) (PyPath p))
           ! (length (legacy_header e (legacy_init t) (PyPath p)) - 3)
         = ''6]'' @ [CHR 0x0D, CHR 0x0D, CHR 0x0A]"
      unfolding le translate_marker_CRLF .
  qed
  show ?thesis
    using a b c w w1 w2 no_marker_prefix_inside header_marker_position no_marker_in_written
    by simp
qed

theorem legacy_direction_marker_witness:
  "writable \<lparr>now = ''Wed Jan 15 14:32:07 2025'', writable = (\<lambda>p. True), linesep = LF\<rparr>
      ''DiffusionVectors.txt''
   \<and> linesep \<lparr>now = ''Wed Jan 15 14:32:07 2025'', writable = (\<lambda>p. True), linesep = LF\<rparr> = LF
   \<and> fst (legacy_save \<lparr>now = ''Wed Jan 15 14:32:07 2025'', writable = (\<lambda>p. True), linesep = LF\<rparr>
             (legacy_init \<lparr>options = Map.empty, diffusion_vectors = []\<rparr>)
             (PyPath ''DiffusionVectors.txt'')) ! 7
       = ''6]'' @ CRLF"
proof -
  let ?e = "\<lparr>now = ''Wed Jan 15 14:32:07 2025'', writable = (\<lambda>p. True), linesep = LF\<rparr>"
  let ?t = "\<lparr>options = Map.empty, diffusion_vectors = []\<rparr>"
  have l: "length (legacy_header ?e (legacy_init ?t) (PyPath ''DiffusionVectors.txt'')) = 10"
    by (simp add: legacy_header_length construct_header_def legacy_init_def)
  note th = legacy_direction_marker [of Map.empty "[]" None 3 "PyTuple [0, 1000]" ?e ?t
        "PyPath ''DiffusionVectors.txt''" "''DiffusionVectors.txt''"]
  note c = th [THEN conjunct2, THEN conjunct2, THEN conjunct2, THEN conjunct2, THEN conjunct2,
        THEN conjunct2, THEN conjunct1]
  show ?thesis using c by (simp add: l)
qed

subsection \<open>Line terminators\<close>




subsection \<open>The format of the vector line\<close>




end
